theory Spec2Isabelle
  imports Complex_Main "HOL-Library.Multiset"
begin

section \<open>The security report page: data model\<close>

text \<open>
  The development follows \<^verbatim>\<open>SecurityReport.js\<close> (class \<^verbatim>\<open>ReportPageComponent\<close>).
  The component keeps five state slots, starts four fetches when it is mounted and
  renders a tree of React elements from its state.
\<close>

subsection \<open>Values received from the server\<close>

text \<open>
  Credentials, scanned servers, cross-segment issues, agents and machines come from the
  server as JSON and are handed on without being inspected by this component.
  \<open>JUndefined\<close> is the JavaScript value \<^verbatim>\<open>undefined\<close>, which a lookup helper may return.
\<close>

datatype jsval =
    JUndefined
  | JNull
  | JBool bool
  | JNum int
  | JStr string
  | JArr "jsval list"
  | JObj "(string \<times> jsval) list"

text \<open>
  A JavaScript number: an IEEE 754 double. \<open>Finite q\<close> stands for the double whose value
  is the rational \<open>q\<close>; the two infinities and \<^verbatim>\<open>NaN\<close> are kept apart. The two zeros
  are one value here: the component never tells them apart (it compares with
  \<^verbatim>\<open>>\<close>, shows numbers as text, and divides only by the length of an array, which is
  \<open>+0\<close> when it is zero).
\<close>

datatype jsnum = Finite rat | PosInfinity | NegInfinity | NaN

text \<open>
  An optional property of an object: the key may be missing, or present with the value
  \<^verbatim>\<open>undefined\<close>, or present with a value.
\<close>

datatype 'a field = Absent | Undefined | Defined 'a

subsection \<open>React elements\<close>

datatype propval =
    PStr string
  | PBool bool
  | PNum jsnum
  | PData "jsval list"
  | PStyle "(string \<times> string) list"
  | PRef string

text \<open>
  \<open>Element\<close> is a host element (\<^verbatim>\<open><div>\<close>), \<open>Component\<close> an element of an imported
  component, which this file does not expand, \<open>Fragment\<close> is \<^verbatim>\<open><>...</>\<close>, and \<open>Array\<close>
  is an array used as a child (the result of \<^verbatim>\<open>xs.map(...)\<close>). \<open>Text\<close> is a string child,
  \<open>Number\<close> a number child and \<open>Null\<close> the child \<^verbatim>\<open>null\<close>.
\<close>

datatype node =
    Text string
  | Number jsnum
  | Null
  | Element string "(string \<times> propval) list" "node list"
  | Component string "(string \<times> propval) list" "node list"
  | Fragment "node list"
  | Array "node list"

datatype error = TypeError

subsection \<open>The report\<close>

record issue =
  issue_type :: string
  remediation_suggestion :: "string field"
  description :: "string field"
  password_restored :: "bool field"

record overview =
  monkey_start_time :: string
  monkey_duration :: "string option"
  config_exploits :: "string list"
  config_ips :: "string list"
  config_scan :: bool

text \<open>
  \<open>exploited_cnt\<close> is the integer that the JSON of the report gives; the component
  computes with the number it is parsed to, \<open>js_number\<close> of it.
\<close>

record glance =
  exploited_cnt :: int
  scanned :: "jsval list"

text \<open>
  \<open>issues\<close> is an object whose keys are machine identifiers; the association list holds
  its entries in the order of \<^verbatim>\<open>Object.keys\<close>.
\<close>

record recommendations =
  issues :: "(string \<times> issue list) list"

text \<open>
  A top-level key of the report is \<open>None\<close> when the object does not have it;
  \<open>other_keys\<close> are the enumerable keys besides the four this component reads.
\<close>

record report =
  r_overview :: "overview option"
  r_glance :: "glance option"
  r_recommendations :: "recommendations option"
  cross_segment_issues :: "jsval list option"
  other_keys :: "string list"

subsection \<open>Component state\<close>

record state =
  report :: report
  stolenCredentials :: "jsval list"
  configuredCredentials :: "jsval list"
  agents :: "jsval list"
  machines :: "jsval list"

subsection \<open>Imported functions\<close>

text \<open>
  The functions that \<^verbatim>\<open>SecurityReport.js\<close> imports from other modules
  (\<^verbatim>\<open>ServerUtils\<close>, \<^verbatim>\<open>TunnelIssue\<close>, \<^verbatim>\<open>CrossSegmentIssue\<close>, \<^verbatim>\<open>ZerologonIssue\<close>,
  \<^verbatim>\<open>pluralize\<close>) and the two built-ins \<^verbatim>\<open>parseInt\<close> and \<^verbatim>\<open>JSON.stringify\<close> are
  parameters of the model: every result below holds for all of them. They are taken to
  return a value; \<^verbatim>\<open>find\<close>-like helpers may return \<open>JUndefined\<close>, and
  \<^verbatim>\<open>tunnelIssueReportByMachine\<close> returns \<open>None\<close> for \<^verbatim>\<open>null\<close>.
\<close>

record externals =
  getManuallyStartedAgents :: "jsval list \<Rightarrow> jsval list"
  getMachineByAgent :: "jsval \<Rightarrow> jsval list \<Rightarrow> jsval"
  getMachineByID :: "jsnum \<Rightarrow> jsval list \<Rightarrow> jsval"
  getMachineHostname :: "jsval \<Rightarrow> string"
  getMachineIPs :: "jsval \<Rightarrow> string list"
  getAllTunnels :: "jsval list \<Rightarrow> jsval list \<Rightarrow> jsval list"
  tunnelIssueReportByMachine :: "jsnum \<Rightarrow> jsval list \<Rightarrow> node option"
  crossSegmentIssueReport :: "jsval \<Rightarrow> node"
  zerologonOverviewWithFailedPassResetWarning :: node
  Pluralize :: "string \<Rightarrow> jsnum \<Rightarrow> string"
  parseInt :: "string \<Rightarrow> jsnum"
  JSON_stringify :: "issue \<Rightarrow> string"

section \<open>Arithmetic of doubles\<close>

text \<open>The integer part of the binary logarithm of a positive integer.\<close>

function floor_log2 :: "int \<Rightarrow> int" where
  "floor_log2 n = (if n < 2 then 0 else 1 + floor_log2 (n div 2))"
  by pat_completeness auto
termination
  by (relation "measure nat") auto

declare floor_log2.simps [simp del]

text \<open>
  The binary exponent of a rational \<open>x \<noteq> 0\<close>: the \<open>e\<close> with \<open>2\<^sup>e \<le> |x| < 2\<^sup>e\<^sup>+\<^sup>1\<close>.
  The difference of the logarithms of numerator and denominator is \<open>e\<close> or \<open>e + 1\<close>.
\<close>

definition binary_exponent :: "rat \<Rightarrow> int" where
  "binary_exponent x =
     (case quotient_of \<bar>x\<bar> of
        (p, q) \<Rightarrow>
          let k = floor_log2 p - floor_log2 q
          in if 2 powi k \<le> \<bar>x\<bar> then k else k - 1)"

text \<open>Rounding to the nearest integer, a tie to the even one.\<close>

definition round_half_even :: "rat \<Rightarrow> int" where
  "round_half_even x =
     (let f = \<lfloor>x\<rfloor>; d = x - of_int f
      in if d < 1 / 2 then f
         else if 1 / 2 < d then f + 1
         else if even f then f else f + 1)"

text \<open>
  The double nearest to a rational, as every arithmetic operation and the parsing of a
  number deliver it (round to nearest, ties to even). The significand has 53 bits, so
  the doubles around \<open>x\<close> are the multiples of \<open>2\<^sup>e\<^sup>-\<^sup>5\<^sup>2\<close>, where \<open>e\<close> is the exponent of
  \<open>x\<close> and at least \<open>-1022\<close> (below that the doubles are subnormal). A result of \<open>2\<^sup>1\<^sup>0\<^sup>2\<^sup>4\<close>
  or more is an infinity.
\<close>

definition to_double :: "rat \<Rightarrow> jsnum" where
  "to_double x =
     (if x = 0 then Finite 0
      else
        let e = max (binary_exponent x) (- 1022);
            ulp = 2 powi (e - 52);
            v = of_int (round_half_even (\<bar>x\<bar> / ulp)) * ulp
        in if 2 powi 1024 \<le> v then (if 0 < x then PosInfinity else NegInfinity)
           else Finite (sgn x * v))"

text \<open>
  The number an integer becomes in JavaScript: a count in the JSON of the report, the
  length of an array, or a literal of the source.
\<close>

definition js_number :: "int \<Rightarrow> jsnum" where
  "js_number k = to_double (of_int k)"

fun js_sign :: "jsnum \<Rightarrow> int" where
  "js_sign (Finite q) = (if q < 0 then - 1 else if q = 0 then 0 else 1)"
| "js_sign PosInfinity = 1"
| "js_sign NegInfinity = - 1"
| "js_sign NaN = 0"

definition js_infinity :: "int \<Rightarrow> jsnum" where
  "js_infinity sign = (if 0 < sign then PosInfinity else NegInfinity)"

text \<open>
  The operator \<^verbatim>\<open>*\<close>: the rounded product of two finite numbers; an infinity times a
  number other than zero is an infinity, times zero it is \<^verbatim>\<open>NaN\<close>.
\<close>

fun js_mul :: "jsnum \<Rightarrow> jsnum \<Rightarrow> jsnum" where
  "js_mul NaN b = NaN"
| "js_mul a NaN = NaN"
| "js_mul (Finite p) (Finite q) = to_double (p * q)"
| "js_mul a b =
     (if js_sign a * js_sign b = 0 then NaN else js_infinity (js_sign a * js_sign b))"

text \<open>
  The operator \<^verbatim>\<open>/\<close>: the rounded quotient of two finite numbers with a divisor other
  than zero. A division by zero (which is \<open>+0\<close> here) gives \<^verbatim>\<open>NaN\<close> for \<open>0 / 0\<close> and the
  infinity with the sign of the dividend otherwise; a finite number by an infinity
  gives zero, an infinity by an infinity \<^verbatim>\<open>NaN\<close>.
\<close>

fun js_div :: "jsnum \<Rightarrow> jsnum \<Rightarrow> jsnum" where
  "js_div NaN b = NaN"
| "js_div a NaN = NaN"
| "js_div (Finite p) (Finite q) =
     (if q = 0 then (if p = 0 then NaN else js_infinity (js_sign (Finite p)))
      else to_double (p / q))"
| "js_div (Finite p) b = Finite 0"
| "js_div a (Finite q) = js_infinity (js_sign a * (if q < 0 then - 1 else 1))"
| "js_div a b = NaN"

text \<open>\<^verbatim>\<open>Math.round\<close>: to the nearest integer, halves upwards; non-finite values stay.\<close>

definition Math_round :: "jsnum \<Rightarrow> jsnum" where
  "Math_round x = (case x of Finite q \<Rightarrow> Finite (of_int \<lfloor>q + 1 / 2\<rfloor>) | _ \<Rightarrow> x)"

definition isFinite :: "jsnum \<Rightarrow> bool" where
  "isFinite x = (case x of Finite q \<Rightarrow> True | _ \<Rightarrow> False)"

text \<open>The comparison \<^verbatim>\<open>x > 0\<close>.\<close>

definition js_positive :: "jsnum \<Rightarrow> bool" where
  "js_positive x = (case x of Finite q \<Rightarrow> 0 < q | PosInfinity \<Rightarrow> True | _ \<Rightarrow> False)"

section \<open>Rendering one issue\<close>

text \<open>A \<^verbatim>\<open>ReactMarkdown\<close> that shows a text of the issue, with its three props (lines 301-303).\<close>

definition markdown :: "string \<Rightarrow> node" where
  "markdown txt =
     Component ''ReactMarkdown''
       [(''plugins'', PRef ''[remarkBreaks]''), (''linkTarget'', PStr ''_blank''),
        (''className'', PStr ''markdown'')]
       [Text txt]"

text \<open>
  Line 297: the initial value of \<^verbatim>\<open>remediation\<close>. What stands between the tags is JSX
  text, so the leading blank and the two apostrophes belong to the string.
\<close>

definition no_remediation_available :: node where
  "no_remediation_available =
     Component ''ReactMarkdown'' [] [Text ('' 'No remediation available'' @ [CHR 0x27])]"

text \<open>
  Lines 296-331. \<^verbatim>\<open>_.has(issue, k) && issue[k] !== undefined\<close> holds exactly for a
  \<open>Defined\<close> field; the comparisons of line 315 are strict (\<^verbatim>\<open>===\<close>).
\<close>

definition generateIssue :: "externals \<Rightarrow> issue \<Rightarrow> node" where
  "generateIssue env i =
     (let remediation = no_remediation_available;
          description = Text '''';
          remediation =
            (case remediation_suggestion i of
               Defined txt \<Rightarrow> markdown txt
             | _ \<Rightarrow> remediation);
          description =
            (case issue.description i of
               Defined txt \<Rightarrow> markdown txt
             | _ \<Rightarrow> description);
          remediation =
            (if issue_type i = ''ZerologonExploiter'' \<and> password_restored i = Defined False
             then Fragment
                    [zerologonOverviewWithFailedPassResetWarning env,
                     Element ''br'' [] [],
                     Element ''li'' [] [remediation]]
             else remediation);
          reportContentComponent =
            Element ''div'' []
              [remediation, Component ''CollapsibleWellComponent'' [] [description]]
      in Element ''li'' [(''key'', PStr (JSON_stringify env i))] [reportContentComponent])"

section \<open>The issues of all machines\<close>

text \<open>Lines 355-362; \<^verbatim>\<open>this.allTunnels\<close> is what \<open>render\<close> stored before (line 85).\<close>

definition getTunnelIssue :: "externals \<Rightarrow> jsval list \<Rightarrow> jsnum \<Rightarrow> node" where
  "getTunnelIssue env allTunnels machineId =
     (case tunnelIssueReportByMachine env machineId allTunnels of
        Some tunnelIssue \<Rightarrow> Element ''li'' [(''key'', PStr ''tunneling-issue'')] [tunnelIssue]
      | None \<Rightarrow> Null)"

text \<open>\<^verbatim>\<open>Array.prototype.join\<close> with a separator.\<close>

fun join :: "string \<Rightarrow> string list \<Rightarrow> string" where
  "join sep [] = []"
| "join sep [x] = x"
| "join sep (x # y # ys) = x @ sep @ join sep (y # ys)"

text \<open>
  Lines 333-353. The loop runs over \<^verbatim>\<open>Object.keys(issues)\<close> and reads \<^verbatim>\<open>issues[machineId]\<close>,
  that is over the entries of the object in order.
\<close>

definition generateIssues ::
  "externals \<Rightarrow> state \<Rightarrow> jsval list \<Rightarrow> (string \<times> issue list) list \<Rightarrow> node" where
  "generateIssues env s allTunnels iss =
     (let issuesDivArray =
        map (\<lambda>(machineId, machineIssues).
               let machine = getMachineByID env (parseInt env machineId) (machines s);
                   hostname = getMachineHostname env machine;
                   machineIPs = getMachineIPs env machine
               in Element ''li'' [(''key'', PStr machineId)]
                    [Element ''h4'' []
                       [Element ''b'' []
                          [Text hostname, Text '' ('', Text (join '', '' machineIPs), Text '')'']],
                     Element ''ol'' []
                       [Array (map (generateIssue env) machineIssues),
                        getTunnelIssue env allTunnels (parseInt env machineId)]])
            iss
      in Element ''ul'' [] [Array issuesDivArray])"

text \<open>Lines 207-219. The JSX comment leaves no child.\<close>

definition generateReportRecommendationsSection ::
  "externals \<Rightarrow> state \<Rightarrow> jsval list \<Rightarrow> error + node" where
  "generateReportRecommendationsSection env s allTunnels =
     (case r_recommendations (report s) of
        None \<Rightarrow> Inl TypeError
      | Some recs \<Rightarrow>
          Inr (Element ''div'' [(''id'', PStr ''recommendations'')]
                 [if length (map fst (issues recs)) \<noteq> 0
                  then Element ''h2'' [] [Text ''Machine-related Recommendations'']
                  else Null,
                  Element ''div'' [] [generateIssues env s allTunnels (issues recs)]]))"

section \<open>The segmentation section\<close>

text \<open>Lines 221-239. With no cross-segment issue the function returns the empty string.\<close>

definition generateSegmentationSection :: "externals \<Rightarrow> state \<Rightarrow> error + node" where
  "generateSegmentationSection env s =
     (case cross_segment_issues (report s) of
        None \<Rightarrow> Inl TypeError
      | Some xs \<Rightarrow>
          if length xs = 0 then Inr (Text '''')
          else Inr (Element ''div'' []
                      [Element ''h2'' [] [Text ''Segmentation Issues''],
                       Element ''div'' []
                         [Text ''The Monkey uncovered the following set of segmentation issues:'',
                          Element ''ul'' [] [Array (map (crossSegmentIssueReport env) xs)]]]))"

section \<open>The overview section\<close>

text \<open>
  \<^verbatim>\<open>new Set(xs)\<close> adds the elements of \<open>xs\<close> one after the other; an element that the set
  already holds is not added again. The set is kept as the list of its elements in
  insertion order, which is the order \<^verbatim>\<open>[...set]\<close> lists them in.
\<close>

definition Set_add :: "'a list \<Rightarrow> 'a \<Rightarrow> 'a list" where
  "Set_add st x = (if x \<in> set st then st else st @ [x])"

definition new_Set :: "'a list \<Rightarrow> 'a list" where
  "new_Set xs = foldl Set_add [] xs"

text \<open>Lines 127-137. A missing, \<^verbatim>\<open>null\<close> or empty duration is falsy.\<close>

definition getMonkeyDuration :: "state \<Rightarrow> error + node" where
  "getMonkeyDuration s =
     (case r_overview (report s) of
        None \<Rightarrow> Inl TypeError
      | Some ov \<Rightarrow>
          (case monkey_duration ov of
             None \<Rightarrow> Inr (Fragment [])
           | Some d \<Rightarrow>
               if d = '''' then Inr (Fragment [])
               else Inr (Fragment
                      [Text ''After '',
                       Element ''span'' [(''className'', PStr ''badge badge-info'')] [Text d],
                       Text '', all monkeys finished propagation attempts.''])))"

text \<open>One \<^verbatim>\<open><li key={x}>{x}</li>\<close> (lines 166, 175 and 189).\<close>

definition li_item :: "string \<Rightarrow> node" where
  "li_item x = Element ''li'' [(''key'', PStr x)] [Text x]"

text \<open>Lines 139-205.\<close>

definition generateReportOverviewSection :: "externals \<Rightarrow> state \<Rightarrow> error + node" where
  "generateReportOverviewSection env s =
     (let manualMonkeyHostnames =
            map (\<lambda>agent. getMachineHostname env (getMachineByAgent env agent (machines s)))
              (getManuallyStartedAgents env (agents s))
      in case r_glance (report s) of
           None \<Rightarrow> Inl TypeError
         | Some gl \<Rightarrow>
        (case r_overview (report s) of
           None \<Rightarrow> Inl TypeError
         | Some ov \<Rightarrow>
        (case getMonkeyDuration s of
           Inl e \<Rightarrow> Inl e
         | Inr duration \<Rightarrow>
             Inr (Element ''div'' [(''id'', PStr ''overview'')]
               [Element ''h2'' [] [Text ''Overview''],
                Component ''SecurityIssuesGlance''
                  [(''issuesFound'', PBool (js_positive (js_number (exploited_cnt gl))))] [],
                if js_positive (js_number (exploited_cnt gl)) then Text ''''
                else Element ''p'' [(''className'', PStr ''alert alert-info'')]
                       [Component ''FontAwesomeIcon''
                          [(''icon'', PRef ''faExclamationTriangle''),
                           (''style'', PStyle [(''marginRight'', ''5px'')])] [],
                        Text ''To improve Infection Monkey's detection rates, try adding credentials under '',
                        Element ''b'' [] [Text ''Propagation - Credentials''],
                        Text '' and updating network settings under '',
                        Element ''b'' [] [Text ''Propagation - Network analysis''],
                        Text ''.''],
                Element ''p'' []
                  [Text ''The first monkey run was started on '',
                   Element ''span'' [(''className'', PStr ''badge badge-info'')]
                     [Text (monkey_start_time ov)],
                   Text ''. '',
                   duration],
                Element ''p'' []
                  [Text ''The monkey started propagating from the following machines where it was manually installed:''],
                Element ''ul'' [] [Array (map li_item (new_Set manualMonkeyHostnames))],
                Component ''AvailableCredentials''
                  [(''stolen'', PData (stolenCredentials s)),
                   (''configured'', PData (configuredCredentials s))] [],
                if length (config_exploits ov) > 0
                then Element ''p'' []
                       [Text ''The Monkey attempted the following exploitation methods:'',
                        Element ''ul'' [] [Array (map li_item (config_exploits ov))]]
                else Element ''p'' [] [Text ''No exploiters were enabled.''],
                if length (config_ips ov) > 0
                then Element ''p'' []
                       [Text ''The Monkey scans the following IPs:'',
                        Element ''ul'' [] [Array (map li_item (config_ips ov))]]
                else Text '''',
                if config_scan ov then Text ''''
                else Element ''p'' []
                       [Text ''Note: Monkeys were configured to avoid scanning of the local network.'']]))))"

section \<open>The glance section\<close>

text \<open>The non-breaking space of \<^verbatim>\<open>&nbsp;\<close> (U+00A0), in UTF-8.\<close>

definition nbsp :: string where
  "nbsp = [CHR 0xC2, CHR 0xA0]"

text \<open>Lines 241-283.\<close>

definition generateReportGlanceSection :: "externals \<Rightarrow> state \<Rightarrow> error + node" where
  "generateReportGlanceSection env s =
     (case r_glance (report s) of
        None \<Rightarrow> Inl TypeError
      | Some gl \<Rightarrow>
          let exploitPercentage =
                js_div (js_mul (js_number 100) (js_number (exploited_cnt gl)))
                  (js_number (int (length (scanned gl))))
          in Inr (Element ''div'' [(''id'', PStr ''glance'')]
               [Element ''h2'' [] [Text ''The Network from the Monkey's Eyes''],
                Element ''div'' []
                  [Element ''p'' []
                     [Text ''The Monkey discovered '',
                      Element ''span'' [(''className'', PStr ''badge badge-warning'')]
                        [Number (js_number (int (length (scanned gl))))],
                      Text '' machines and successfully breached '',
                      Element ''span'' [(''className'', PStr ''badge badge-danger'')]
                        [Number (js_number (exploited_cnt gl))],
                      Text '' of them.''],
                   Element ''div''
                     [(''className'', PStr ''text-center''), (''style'', PStyle [(''margin'', ''10px'')])]
                     [Component ''Line''
                        [(''style'', PStyle [(''width'', ''300px''), (''marginRight'', ''5px'')]),
                         (''percent'', PNum exploitPercentage),
                         (''strokeWidth'', PStr ''4''),
                         (''trailWidth'', PStr ''4''),
                         (''strokeColor'', PStr ''#d9534f''),
                         (''trailColor'', PStr ''#f0ad4e'')] [],
                      Element ''b'' []
                        [Number (Math_round exploitPercentage),
                         Text ''% of scanned machines exploited'']]],
                Element ''div'' [(''style'', PStyle [(''marginBottom'', ''20px'')])]
                  [Component ''ScannedServers'' [(''data'', PData (scanned gl))] []],
                Element ''div'' [(''style'', PStyle [(''marginBottom'', ''20px'')])]
                  [Element ''p'' []
                     [Text (''The Monkey successfully breached'' @ nbsp),
                      Element ''span'' [(''className'', PStr ''badge badge-danger'')]
                        [Number (js_number (exploited_cnt gl))],
                      Text '' '',
                      Text (Pluralize env ''machine'' (js_number (exploited_cnt gl))),
                      Text '':''],
                   Component ''BreachedServers'' [] []],
                Element ''div'' [(''style'', PStyle [(''marginBottom'', ''20px'')])]
                  [Component ''StolenCredentialsTable''
                     [(''stolenCredentials'', PData (stolenCredentials s))] []]]))"

section \<open>The footer and the page\<close>

text \<open>Lines 285-294.\<close>

definition generateReportFooter :: node where
  "generateReportFooter =
     Element ''div''
       [(''id'', PStr ''footer''), (''className'', PStr ''text-center''),
        (''style'', PStyle [(''marginTop'', ''20px'')])]
       [Text ''For questions, suggestions, or any other feedback, contact '',
        Element ''a''
          [(''href'', PStr ''mailto://labs@guardicore.com''), (''className'', PStr ''no-print'')]
          [Text ''labs@guardicore.com''],
        Element ''div''
          [(''className'', PStr ''force-print''), (''style'', PStyle [(''display'', ''none'')])]
          [Text ''labs@guardicore.com''],
        Text ''.'',
        Element ''img''
          [(''src'', PRef ''guardicoreLogoImage''), (''alt'', PStr ''GuardiCore''),
           (''className'', PStr ''center-block''), (''style'', PStyle [(''height'', ''50px'')])]
          []]"

text \<open>
  \<^verbatim>\<open>Object.keys(report)\<close>: the keys the object has. Line 123-125.
\<close>

definition Object_keys :: "report \<Rightarrow> string list" where
  "Object_keys r =
     (case r_overview r of None \<Rightarrow> [] | Some v \<Rightarrow> [''overview'']) @
     (case r_glance r of None \<Rightarrow> [] | Some v \<Rightarrow> [''glance'']) @
     (case r_recommendations r of None \<Rightarrow> [] | Some v \<Rightarrow> [''recommendations'']) @
     (case cross_segment_issues r of None \<Rightarrow> [] | Some v \<Rightarrow> [''cross_segment_issues'']) @
     other_keys r"

definition stillLoadingDataFromServer :: "state \<Rightarrow> bool" where
  "stillLoadingDataFromServer s = (length (Object_keys (report s)) = 0)"

definition report_loader :: node where
  "report_loader = Component ''ReportLoader'' [(''loading'', PBool True)] []"

definition print_report_button :: node where
  "print_report_button = Component ''PrintReportButton'' [(''onClick'', PRef ''print'')] []"

text \<open>
  Lines 87-100: the value of \<^verbatim>\<open>content\<close>. The five sections are evaluated in order, and
  the first one that throws ends the evaluation.
\<close>

definition render_content :: "externals \<Rightarrow> state \<Rightarrow> jsval list \<Rightarrow> error + node" where
  "render_content env s allTunnels =
     (if stillLoadingDataFromServer s then Inr report_loader
      else
        (case generateReportOverviewSection env s of Inl e \<Rightarrow> Inl e | Inr overview \<Rightarrow>
        (case generateSegmentationSection env s of Inl e \<Rightarrow> Inl e | Inr segmentation \<Rightarrow>
        (case generateReportRecommendationsSection env s allTunnels of Inl e \<Rightarrow> Inl e
         | Inr recommendations \<Rightarrow>
        (case generateReportGlanceSection env s of Inl e \<Rightarrow> Inl e | Inr glance \<Rightarrow>
           Inr (Element ''div'' []
                  [overview, segmentation, recommendations, glance, generateReportFooter]))))))"

text \<open>
  Lines 84-121. \<^verbatim>\<open>this.allTunnels\<close> is assigned first and read by \<open>getTunnelIssue\<close>
  during the same call only, so it is passed on as a value.
\<close>

definition render :: "externals \<Rightarrow> state \<Rightarrow> error + node" where
  "render env s =
     (let allTunnels = getAllTunnels env (agents s) (machines s)
      in case render_content env s allTunnels of
           Inl e \<Rightarrow> Inl e
         | Inr content \<Rightarrow>
             Inr (Fragment
               [Element ''div'' [(''style'', PStyle [(''marginBottom'', ''20px'')])]
                  [print_report_button],
                Element ''div'' [(''className'', PStr ''report-page'')]
                  [Component ''ReportHeader'' [(''report_type'', PRef ''ReportTypes.security'')] [],
                   Element ''hr'' [] [],
                   content],
                Element ''div'' [(''style'', PStyle [(''marginTop'', ''20px'')])]
                  [print_report_button]]))"

section \<open>Construction and the four fetches\<close>

text \<open>Lines 42-53.\<close>

definition constructor :: "report \<Rightarrow> state" where
  "constructor props_report =
     \<lparr>report = props_report, stolenCredentials = [], configuredCredentials = [],
      agents = [], machines = []\<rparr>"

text \<open>A promise that has settled: fulfilled with a value or rejected with a reason.\<close>

datatype 'a promise = Fulfilled 'a | Rejected string

text \<open>
  \<^verbatim>\<open>p.then(f)\<close> with a fulfilment handler only: a rejection of \<open>p\<close> passes through to
  the promise that \<^verbatim>\<open>then\<close> returns.
\<close>

definition then_promise :: "'a promise \<Rightarrow> ('a \<Rightarrow> 'b promise) \<Rightarrow> 'b promise" where
  "then_promise p f = (case p of Fulfilled v \<Rightarrow> f v | Rejected why \<Rightarrow> Rejected why)"

text \<open>
  The last \<^verbatim>\<open>then\<close> of each chain calls \<^verbatim>\<open>setState\<close>: the handler is a state update.
  The promise it returns is kept by nobody, so a rejection that reaches it is unhandled.
\<close>

definition then_setState ::
  "'a promise \<Rightarrow> ('a \<Rightarrow> state \<Rightarrow> state) \<Rightarrow> state \<Rightarrow> state \<times> unit promise" where
  "then_setState p f s =
     (case p of Fulfilled v \<Rightarrow> (f v s, Fulfilled ()) | Rejected why \<Rightarrow> (s, Rejected why))"

text \<open>A response of \<^verbatim>\<open>authFetch\<close>; \<^verbatim>\<open>res.json()\<close> is a promise of the parsed body.\<close>

datatype response = Response (json: "jsval list promise")

text \<open>
  The four promises that \<^verbatim>\<open>componentDidMount\<close> starts (lines 55-72), each with the way
  it settled.
\<close>

datatype settlement =
    StolenCredentialsFetch "response promise"
  | ConfiguredCredentialsFetch "response promise"
  | AllAgents "jsval list promise"
  | AllMachines "jsval list promise"

text \<open>
  What the component does when one of them settles: lines 62-66, 67-71, 57 and 58.
  \<^verbatim>\<open>setState\<close> with a one-key object replaces that slot and keeps the others.
\<close>

fun on_settled :: "settlement \<Rightarrow> state \<Rightarrow> state \<times> unit promise" where
  "on_settled (StolenCredentialsFetch p) s =
     then_setState (then_promise p json) (\<lambda>creds s. s\<lparr>stolenCredentials := creds\<rparr>) s"
| "on_settled (ConfiguredCredentialsFetch p) s =
     then_setState (then_promise p json) (\<lambda>creds s. s\<lparr>configuredCredentials := creds\<rparr>) s"
| "on_settled (AllAgents p) s =
     then_setState p (\<lambda>agents s. s\<lparr>agents := agents\<rparr>) s"
| "on_settled (AllMachines p) s =
     then_setState p (\<lambda>machines s. s\<lparr>machines := machines\<rparr>) s"

text \<open>The state after the promises have settled in the order of the list.\<close>

definition settle_all :: "settlement list \<Rightarrow> state \<Rightarrow> state" where
  "settle_all es s = fold (\<lambda>e s. fst (on_settled e s)) es s"

section \<open>Observations on the rendered tree\<close>

fun node_children :: "node \<Rightarrow> node list" where
  "node_children (Element tag props cs) = cs"
| "node_children (Component name props cs) = cs"
| "node_children (Fragment cs) = cs"
| "node_children (Array cs) = cs"
| "node_children n = []"

text \<open>The props of every element of the component \<open>name\<close> in a tree, in document order.\<close>

fun components :: "string \<Rightarrow> node \<Rightarrow> (string \<times> propval) list list" where
  "components name (Element tag props cs) = concat (map (components name) cs)"
| "components name (Component c props cs) =
     (if c = name then [props] else []) @ concat (map (components name) cs)"
| "components name (Fragment cs) = concat (map (components name) cs)"
| "components name (Array cs) = concat (map (components name) cs)"
| "components name n = []"

text \<open>The value of \<^verbatim>\<open>content\<close> inside the page that \<open>render\<close> returns.\<close>

definition page_content :: "node \<Rightarrow> node" where
  "page_content out = node_children (node_children out ! 1) ! 2"

text \<open>
  The specification's wording of the manual-start list: duplicates removed, the order
  of first occurrence kept.
\<close>

function dedup_first_seen :: "'a list \<Rightarrow> 'a list" where
  "dedup_first_seen [] = []"
| "dedup_first_seen (x # xs) = x # dedup_first_seen (filter (\<lambda>y. y \<noteq> x) xs)"
  by pat_completeness auto
termination
  by (relation "measure length") (auto simp: less_Suc_eq_le)

text \<open>Which of the four fetches a settlement belongs to, and the slot of each fetch.\<close>

datatype fetch = StolenCredentials | ConfiguredCredentials | Agents | Machines

fun fetch_of :: "settlement \<Rightarrow> fetch" where
  "fetch_of (StolenCredentialsFetch p) = StolenCredentials"
| "fetch_of (ConfiguredCredentialsFetch p) = ConfiguredCredentials"
| "fetch_of (AllAgents p) = Agents"
| "fetch_of (AllMachines p) = Machines"

fun slot :: "fetch \<Rightarrow> state \<Rightarrow> jsval list" where
  "slot StolenCredentials s = stolenCredentials s"
| "slot ConfiguredCredentials s = configuredCredentials s"
| "slot Agents s = agents s"
| "slot Machines s = machines s"

text \<open>
  The outcome of a fetch as a whole: the data it delivers, or the reason of its failure
  (the request is rejected, or the body of a credentials response is).
\<close>

fun body :: "response promise \<Rightarrow> jsval list promise" where
  "body (Rejected why) = Rejected why"
| "body (Fulfilled (Response b)) = b"

fun outcome :: "settlement \<Rightarrow> jsval list promise" where
  "outcome (StolenCredentialsFetch p) = body p"
| "outcome (ConfiguredCredentialsFetch p) = body p"
| "outcome (AllAgents p) = p"
| "outcome (AllMachines p) = p"

fun written :: "jsval list promise \<Rightarrow> jsval list \<Rightarrow> jsval list" where
  "written (Fulfilled v) old = v"
| "written (Rejected why) old = old"

subsection \<open>An instance of the imported functions\<close>

text \<open>
  Modelled from the spec: the helpers of \<^verbatim>\<open>ServerUtils\<close>, \<^verbatim>\<open>TunnelIssue\<close>,
  \<^verbatim>\<open>CrossSegmentIssue\<close> and \<^verbatim>\<open>ZerologonIssue\<close> are not among the sources. Section 3 of
  the specification says that an agent refers to a machine and carries a flag for a
  manual start, and that a machine carries a hostname and a list of IP addresses.
  The instance serves to evaluate the model on concrete reports.
\<close>

fun get_property :: "string \<Rightarrow> jsval \<Rightarrow> jsval" where
  "get_property k (JObj kvs) = (case map_of kvs k of Some v \<Rightarrow> v | None \<Rightarrow> JUndefined)"
| "get_property k v = JUndefined"

fun string_of_jsval :: "jsval \<Rightarrow> string" where
  "string_of_jsval (JStr h) = h"
| "string_of_jsval v = ''unknown''"

fun strings_of_jsval :: "jsval \<Rightarrow> string list" where
  "strings_of_jsval (JArr vs) = map string_of_jsval vs"
| "strings_of_jsval v = []"

definition machine_by_id :: "jsval \<Rightarrow> jsval list \<Rightarrow> jsval" where
  "machine_by_id ident ms =
     (case filter (\<lambda>m. get_property ''id'' m = ident) ms of [] \<Rightarrow> JUndefined | m # rest \<Rightarrow> m)"

fun jsval_of_num :: "jsnum \<Rightarrow> jsval" where
  "jsval_of_num (Finite q) = JNum \<lfloor>q\<rfloor>"
| "jsval_of_num x = JUndefined"

definition digit_value :: "char \<Rightarrow> nat" where
  "digit_value c = of_char c - 48"

definition parse_decimal :: "string \<Rightarrow> jsnum" where
  "parse_decimal str =
     (if str \<noteq> [] \<and> list_all (\<lambda>c. c \<in> set ''0123456789'') str
      then Finite (of_nat (foldl (\<lambda>acc c. 10 * acc + digit_value c) 0 str))
      else NaN)"

definition example_externals :: externals where
  "example_externals =
     \<lparr>getManuallyStartedAgents =
        filter (\<lambda>agent. get_property ''manually_started'' agent = JBool True),
      getMachineByAgent = (\<lambda>agent ms. machine_by_id (get_property ''machine_id'' agent) ms),
      getMachineByID = (\<lambda>ident ms. machine_by_id (jsval_of_num ident) ms),
      getMachineHostname = (\<lambda>m. string_of_jsval (get_property ''hostname'' m)),
      getMachineIPs = (\<lambda>m. strings_of_jsval (get_property ''ip_addresses'' m)),
      getAllTunnels = (\<lambda>agents machines. []),
      tunnelIssueReportByMachine = (\<lambda>machineId tunnels. None),
      crossSegmentIssueReport = (\<lambda>x. Element ''li'' [] [Text ''Cross-segment issue'']),
      zerologonOverviewWithFailedPassResetWarning =
        Element ''span'' [(''className'', PStr ''badge badge-danger'')]
          [Text ''Automatic password restoration failed''],
      Pluralize = (\<lambda>word n. if n = Finite 1 then word else word @ ''s''),
      parseInt = parse_decimal,
      JSON_stringify = issue_type\<rparr>"

subsection \<open>Parts of a rendered issue and of the overview\<close>

text \<open>
  In the list item of an issue, the remediation is the first child of the \<^verbatim>\<open>div\<close> and
  the description is the child of the collapsible well, the second child of the \<^verbatim>\<open>div\<close>.
\<close>

definition rendered_remediation :: "node \<Rightarrow> node" where
  "rendered_remediation item = node_children (node_children item ! 0) ! 0"

definition rendered_description :: "node \<Rightarrow> node" where
  "rendered_description item =
     node_children (node_children (node_children item ! 0) ! 1) ! 0"

text \<open>The hostname the page shows for an agent, and those of the manually started agents.\<close>

definition agent_hostname :: "externals \<Rightarrow> state \<Rightarrow> jsval \<Rightarrow> string" where
  "agent_hostname env s agent = getMachineHostname env (getMachineByAgent env agent (machines s))"

definition manual_hostnames :: "externals \<Rightarrow> state \<Rightarrow> string list" where
  "manual_hostnames env s =
     map (\<lambda>agent. getMachineHostname env (getMachineByAgent env agent (machines s)))
       (getManuallyStartedAgents env (agents s))"

subsection \<open>Example data\<close>

definition zerologon_issue :: issue where
  "zerologon_issue =
     \<lparr>issue_type = ''ZerologonExploiter'',
      remediation_suggestion = Defined ''Reset the password.'',
      description = Defined ''The machine is vulnerable.'',
      password_restored = Defined False\<rparr>"

definition plain_issue :: issue where
  "plain_issue =
     \<lparr>issue_type = ''SSHExploiter'', remediation_suggestion = Absent,
      description = Absent, password_restored = Absent\<rparr>"

definition empty_report :: report where
  "empty_report =
     \<lparr>r_overview = None, r_glance = None, r_recommendations = None,
      cross_segment_issues = None, other_keys = []\<rparr>"

definition example_overview :: overview where
  "example_overview =
     \<lparr>monkey_start_time = ''2023-01-01 10:00'', monkey_duration = Some ''5 minutes'',
      config_exploits = [''SSHExploiter'', ''ZerologonExploiter''],
      config_ips = [''10.0.0.0/24''], config_scan = True\<rparr>"

definition example_report :: report where
  "example_report =
     \<lparr>r_overview = Some example_overview,
      r_glance = Some \<lparr>exploited_cnt = 1, scanned = [JStr ''web'', JStr ''db'', JStr ''mail'']\<rparr>,
      r_recommendations = Some \<lparr>issues = [(''1'', [zerologon_issue, plain_issue])]\<rparr>,
      cross_segment_issues = Some [JStr ''10.0.0.0/24 -> 10.0.1.0/24''],
      other_keys = []\<rparr>"

text \<open>The same report with nothing scanned, no exploiter enabled and no cross-segment issue.\<close>

definition quiet_report :: report where
  "quiet_report =
     \<lparr>r_overview = Some (example_overview\<lparr>config_exploits := []\<rparr>),
      r_glance = Some \<lparr>exploited_cnt = 0, scanned = []\<rparr>,
      r_recommendations = Some \<lparr>issues = []\<rparr>,
      cross_segment_issues = Some [],
      other_keys = []\<rparr>"

definition machine :: "int \<Rightarrow> string \<Rightarrow> jsval" where
  "machine ident hostname =
     JObj [(''id'', JNum ident), (''hostname'', JStr hostname), (''ip_addresses'', JArr [])]"

definition agent :: "int \<Rightarrow> bool \<Rightarrow> jsval" where
  "agent machine_id manual =
     JObj [(''machine_id'', JNum machine_id), (''manually_started'', JBool manual)]"

text \<open>
  Machines 1 and 2 are two machines with the same hostname. Two agents were started by
  hand on machine 1, one on machine 2 and one on machine 3; the agent on machine 4 was not.
\<close>

definition example_machines :: "jsval list" where
  "example_machines = [machine 1 ''web'', machine 2 ''web'', machine 3 ''db'', machine 4 ''mail'']"

definition example_agents :: "jsval list" where
  "example_agents = [agent 1 True, agent 3 True, agent 1 True, agent 4 False, agent 2 True]"

definition example_state :: state where
  "example_state =
     (constructor example_report)\<lparr>agents := example_agents, machines := example_machines\<rparr>"

section \<open>Lemmas on doubles\<close>

lemma floor_log2_nonneg: "0 \<le> floor_log2 n"
  by (induction n rule: floor_log2.induct) (simp add: floor_log2.simps)

lemma floor_log2_bounds:
  "1 \<le> n \<Longrightarrow> 2 ^ nat (floor_log2 n) \<le> n \<and> n < 2 * 2 ^ nat (floor_log2 n)"
proof (induction n rule: floor_log2.induct)
  case (1 n)
  show ?case
  proof (cases "n < 2")
    case True
    with "1.prems" have "n = 1" by simp
    then show ?thesis by (simp add: floor_log2.simps)
  next
    case False
    let ?m = "n div 2"
    let ?f = "nat (floor_log2 ?m)"
    have m: "1 \<le> ?m" using False by simp
    have ih: "2 ^ ?f \<le> ?m \<and> ?m < 2 * 2 ^ ?f"
      using "1.IH" [OF False m] .
    have fl: "nat (floor_log2 n) = Suc ?f"
      using False floor_log2_nonneg [of ?m] by (simp add: floor_log2.simps [of n] nat_add_distrib)
    have "2 * ?m \<le> n" "n < 2 * ?m + 2" by simp_all
    with ih show ?thesis unfolding fl by simp
  qed
qed

lemma floor_log2_powi:
  assumes "1 \<le> n"
  shows "(2::rat) powi (floor_log2 n) \<le> of_int n" and "of_int n < (2::rat) powi (floor_log2 n + 1)"
proof -
  let ?f = "nat (floor_log2 n)"
  have f: "floor_log2 n = int ?f" using floor_log2_nonneg [of n] by simp
  have b: "2 ^ ?f \<le> n" "n < 2 * 2 ^ ?f" using floor_log2_bounds [OF assms] by simp_all
  have lo: "(2::rat) powi (floor_log2 n) = of_int (2 ^ ?f)"
    using f by (metis of_int_numeral of_int_power power_int_of_nat)
  have "floor_log2 n + 1 = int (Suc ?f)" using f by simp
  then have hi: "(2::rat) powi (floor_log2 n + 1) = of_int (2 * 2 ^ ?f)"
    by (simp only: power_int_of_nat) simp
  show "(2::rat) powi (floor_log2 n) \<le> of_int n"
    unfolding lo using b(1) by (simp only: of_int_le_iff)
  show "of_int n < (2::rat) powi (floor_log2 n + 1)"
    unfolding hi using b(2) by (simp only: of_int_less_iff)
qed

lemma binary_exponent_bounds:
  assumes "x \<noteq> 0"
  shows "2 powi (binary_exponent x) \<le> \<bar>x\<bar>" and "\<bar>x\<bar> < 2 powi (binary_exponent x + 1)"
proof -
  obtain p q where pq: "quotient_of \<bar>x\<bar> = (p, q)" by (cases "quotient_of \<bar>x\<bar>")
  have q: "0 < q" using quotient_of_denom_pos [OF pq] .
  have x: "\<bar>x\<bar> = of_int p / of_int q" using quotient_of_div [OF pq] .
  have "0 < \<bar>x\<bar>" using assms by simp
  then have p: "1 \<le> p" using x q by (simp add: zero_less_divide_iff) 
  let ?a = "floor_log2 p" and ?b = "floor_log2 q"
  have pa: "(2::rat) powi ?a \<le> of_int p" "of_int p < (2::rat) powi (?a + 1)"
    using floor_log2_powi [OF p] by simp_all
  have qb: "(2::rat) powi ?b \<le> of_int q" "of_int q < (2::rat) powi (?b + 1)"
    using floor_log2_powi [of q] q by simp_all
  have qpos: "(0::rat) < of_int q" using q by simp
  have low: "(2::rat) powi (?a - ?b - 1) \<le> \<bar>x\<bar>"
  proof -
    have "(2::rat) powi (?a - ?b - 1) = 2 powi ?a / 2 powi (?b + 1)"
      using power_int_diff [of "2::rat" ?a "?b + 1"] by (simp add: algebra_simps)
    also have "\<dots> \<le> of_int p / 2 powi (?b + 1)"
      using pa(1) by (simp add: divide_right_mono)
    also have "\<dots> \<le> of_int p / of_int q"
      using qb(2) qpos p by (intro divide_left_mono) (simp_all add: )
    finally show ?thesis using x by simp
  qed
  have up: "\<bar>x\<bar> < (2::rat) powi (?a - ?b + 1)"
  proof -
    have "\<bar>x\<bar> < 2 powi (?a + 1) / of_int q"
      using pa(2) qpos x by (simp add: divide_strict_right_mono)
    also have "\<dots> \<le> 2 powi (?a + 1) / 2 powi ?b"
      using qb(1) qpos by (intro divide_left_mono) (simp_all add: zero_less_mult_iff)
    also have "\<dots> = (2::rat) powi (?a - ?b + 1)"
      using power_int_diff [of "2::rat" "?a + 1" ?b] by (simp add: algebra_simps)
    finally show ?thesis .
  qed
  have be: "binary_exponent x = (if 2 powi (?a - ?b) \<le> \<bar>x\<bar> then ?a - ?b else ?a - ?b - 1)"
    by (simp add: binary_exponent_def pq Let_def)
  show "2 powi (binary_exponent x) \<le> \<bar>x\<bar>"
    using low by (simp add: be)
  show "\<bar>x\<bar> < 2 powi (binary_exponent x + 1)"
    using up by (simp add: be not_le)
qed


lemma round_half_even_of_int: "round_half_even (of_int j) = j"
  by (simp add: round_half_even_def)

lemma to_double_exact:
  assumes "\<bar>k\<bar> \<le> 2 ^ 53"
  shows "to_double (of_int k) = Finite (of_int k)"
proof (cases "k = 0")
  case True
  then show ?thesis by (simp add: to_double_def)
next
  case False
  let ?x = "of_int k :: rat"
  let ?e = "max (binary_exponent ?x) (- 1022)"
  let ?ulp = "(2::rat) powi (?e - 52)"
  have x0: "?x \<noteq> 0" using False by simp
  have ax: "\<bar>?x\<bar> \<le> 2 powi 53"
  proof -
    have "(of_int \<bar>k\<bar> :: rat) \<le> of_int (2 ^ 53)" using assms by (simp only: of_int_le_iff)
    then show ?thesis by simp
  qed
  have "(2::rat) powi (binary_exponent ?x) \<le> 2 powi 53"
    using binary_exponent_bounds(1) [OF x0] ax by (rule order_trans)
  then have be: "binary_exponent ?x \<le> 53"
    by (rule power_int_le_imp_le_exp [rotated]) simp_all
  have "\<exists>j. \<bar>?x\<bar> / ?ulp = of_int j"
  proof (cases "?e \<le> 52")
    case True
    then obtain n where n: "52 - ?e = int n" by (metis diff_ge_0_iff_ge nonneg_int_cases)
    have "\<bar>?x\<bar> / ?ulp = \<bar>?x\<bar> * 2 powi (52 - ?e)"
      using power_int_minus [of "2::rat" "?e - 52"] by (simp add: divide_inverse)
    also have "\<dots> = of_int (\<bar>k\<bar> * 2 ^ n)"
      unfolding n by simp
    finally show ?thesis by blast
  next
    case False
    then have e53: "binary_exponent ?x = 53" and e: "?e = 53" using be by simp_all
    have "(2::rat) powi 53 \<le> \<bar>?x\<bar>"
      using binary_exponent_bounds(1) [OF x0] e53 by simp
    with ax have "\<bar>?x\<bar> = 2 powi 53" by simp
    then have "\<bar>?x\<bar> / ?ulp = of_int (2 ^ 52)"
      unfolding e by simp
    then show ?thesis by blast
  qed
  then obtain j where j: "\<bar>?x\<bar> / ?ulp = of_int j" ..
  have ulp: "0 < ?ulp" by simp
  have v: "of_int (round_half_even (\<bar>?x\<bar> / ?ulp)) * ?ulp = \<bar>?x\<bar>"
    using j ulp by (simp add: round_half_even_of_int field_simps)
  have small: "\<not> 2 powi 1024 \<le> \<bar>?x\<bar>"
  proof -
    have "(2::rat) powi 53 < 2 powi 1024"
      by (rule power_int_strict_increasing) simp_all
    with ax show ?thesis by simp
  qed
  show ?thesis
    using x0 small by (simp add: to_double_def Let_def v mult_sgn_abs del: power_int_numeral)
qed


lemma round_half_even_ge_floor: "\<lfloor>x\<rfloor> \<le> round_half_even x"
  by (simp add: round_half_even_def Let_def)

lemma js_number_exact: "\<bar>k\<bar> \<le> 2 ^ 53 \<Longrightarrow> js_number k = Finite (of_int k)"
  by (simp add: js_number_def to_double_exact)

lemma to_double_positive:
  assumes "1 \<le> x"
  shows "js_positive (to_double x)"
proof -
  let ?b = "binary_exponent x"
  let ?e = "max ?b (- 1022)"
  let ?ulp = "(2::rat) powi (?e - 52)"
  let ?m = "round_half_even (\<bar>x\<bar> / ?ulp)"
  have x0: "x \<noteq> 0" and ax: "\<bar>x\<bar> = x" using assms by simp_all
  have "0 \<le> ?b"
  proof (rule ccontr)
    assume "\<not> 0 \<le> ?b"
    then have "?b + 1 \<le> 0" by simp
    then have "(2::rat) powi (?b + 1) \<le> 2 powi 0"
      by (rule power_int_increasing) simp
    with binary_exponent_bounds(2) [OF x0] ax assms show False by simp
  qed
  then have e: "?e = ?b" by simp
  have "(2::rat) powi 52 = 2 powi ?b / 2 powi (?b - 52)"
    using power_int_diff [of "2::rat" ?b "?b - 52"] by simp
  also have "\<dots> \<le> \<bar>x\<bar> / 2 powi (?b - 52)"
    using binary_exponent_bounds(1) [OF x0] by (simp add: divide_right_mono)
  finally have "(2::rat) powi 52 \<le> \<bar>x\<bar> / ?ulp" unfolding e .
  moreover have "(1::rat) \<le> 2 powi 52" by simp
  ultimately have "(1::rat) \<le> \<bar>x\<bar> / ?ulp" by (rule order_trans [rotated])
  then have "1 \<le> \<lfloor>\<bar>x\<bar> / ?ulp\<rfloor>" by (simp add: le_floor_iff)
  then have "1 \<le> ?m" using round_half_even_ge_floor [of "\<bar>x\<bar> / ?ulp"] by linarith
  then have "0 < of_int ?m * ?ulp" by simp
  then show ?thesis
    using assms by (simp add: to_double_def Let_def js_positive_def del: power_int_numeral)
qed

lemma to_double_not_positive:
  assumes "x \<le> 0"
  shows "\<not> js_positive (to_double x)"
proof (cases "x = 0")
  case True
  then show ?thesis by (simp add: to_double_def js_positive_def)
next
  case False
  let ?ulp = "(2::rat) powi (max (binary_exponent x) (- 1022) - 52)"
  let ?m = "round_half_even (\<bar>x\<bar> / ?ulp)"
  have "0 \<le> \<lfloor>\<bar>x\<bar> / ?ulp\<rfloor>" by simp
  then have "0 \<le> ?m" using round_half_even_ge_floor [of "\<bar>x\<bar> / ?ulp"] by linarith
  then have "0 \<le> of_int ?m * ?ulp" by simp
  moreover have "sgn x = - 1" using assms False by simp
  ultimately show ?thesis
    using assms False by (simp add: to_double_def Let_def js_positive_def del: power_int_numeral)
qed

lemma js_positive_number [simp]: "js_positive (js_number k) \<longleftrightarrow> 0 < k"
proof (cases "0 < k")
  case True
  then have "(1::rat) \<le> of_int k" by simp
  from to_double_positive [OF this] True show ?thesis by (simp add: js_number_def)
next
  case False
  then have "(of_int k :: rat) \<le> 0" by simp
  from to_double_not_positive [OF this] False show ?thesis by (simp add: js_number_def)
qed

text \<open>A value of \<open>2\<^sup>1\<^sup>0\<^sup>2\<^sup>4\<close> or more becomes the infinity.\<close>

lemma to_double_overflow:
  assumes "2 powi 1024 \<le> x"
  shows "to_double x = PosInfinity"
proof -
  let ?b = "binary_exponent x"
  let ?e = "max ?b (- 1022)"
  let ?ulp = "(2::rat) powi (?e - 52)"
  let ?m = "round_half_even (\<bar>x\<bar> / ?ulp)"
  have pos: "(0::rat) < 2 powi 1024" by simp
  have x0: "x \<noteq> 0" and ax: "\<bar>x\<bar> = x" and xpos: "0 < x" using assms pos by linarith+
  have lt: "(2::rat) powi 1024 < 2 powi (?b + 1)"
    using binary_exponent_bounds(2) [OF x0] ax assms by linarith
  have "1024 < ?b + 1"
  proof (rule ccontr)
    assume "\<not> 1024 < ?b + 1"
    then have "?b + 1 \<le> 1024" by simp
    then have "(2::rat) powi (?b + 1) \<le> 2 powi 1024"
      by (rule power_int_increasing) simp
    with lt show False by simp
  qed
  then have b: "1024 \<le> ?b" and e: "?e = ?b" by simp_all
  have ulp: "0 < ?ulp" by simp
  have "(2::rat) powi 52 = 2 powi ?b / 2 powi (?b - 52)"
    using power_int_diff [of "2::rat" ?b "?b - 52"] by simp
  also have "\<dots> \<le> \<bar>x\<bar> / 2 powi (?b - 52)"
    using binary_exponent_bounds(1) [OF x0] by (simp add: divide_right_mono)
  finally have "(2::rat) powi 52 \<le> \<bar>x\<bar> / ?ulp" unfolding e .
  then have "(of_int (2 ^ 52) :: rat) \<le> \<bar>x\<bar> / ?ulp" by simp
  then have "2 ^ 52 \<le> \<lfloor>\<bar>x\<bar> / ?ulp\<rfloor>" by (simp only: le_floor_iff)
  then have "2 ^ 52 \<le> ?m" using round_half_even_ge_floor [of "\<bar>x\<bar> / ?ulp"] by linarith
  then have "(of_int (2 ^ 52) :: rat) \<le> of_int ?m" by (simp only: of_int_le_iff)
  then have "(2::rat) powi 52 * ?ulp \<le> of_int ?m * ?ulp"
    using ulp by (simp add: mult_right_mono)
  moreover have "(2::rat) powi 52 * ?ulp = 2 powi ?b"
    unfolding e using power_int_add [of "2::rat" 52 "?b - 52"] by simp
  moreover have "(2::rat) powi 1024 \<le> 2 powi ?b"
    using b by (rule power_int_increasing) simp
  ultimately have "(2::rat) powi 1024 \<le> of_int ?m * ?ulp" by linarith
  then show ?thesis
    using x0 xpos by (simp add: to_double_def Let_def del: power_int_numeral)
qed

text \<open>
  Two values of the arithmetic: a product that is rounded, and the quotient of 100 by 3,
  which JavaScript prints as \<^verbatim>\<open>33.333333333333336\<close>.
\<close>

lemma product_is_rounded:
  "js_mul (js_number 100) (js_number (2 ^ 53 - 1)) = Finite 900719925474099072"
  by code_simp

lemma to_double_third_of_hundred:
  "to_double (100 / 3) = Finite (4691249611844267 / 140737488355328)"
  by code_simp

section \<open>Lemmas on the list of a set\<close>

lemma set_dedup_first_seen: "set (dedup_first_seen xs) = set xs"
  by (induction xs rule: dedup_first_seen.induct) auto

lemma distinct_dedup_first_seen: "distinct (dedup_first_seen xs)"
  by (induction xs rule: dedup_first_seen.induct) (auto simp: set_dedup_first_seen)

lemma foldl_Set_add:
  "foldl Set_add acc xs = acc @ dedup_first_seen (filter (\<lambda>x. x \<notin> set acc) xs)"
proof (induction xs arbitrary: acc)
  case Nil
  then show ?case by simp
next
  case (Cons x xs)
  show ?case
  proof (cases "x \<in> set acc")
    case True
    then show ?thesis using Cons.IH [of acc] by (simp add: Set_add_def)
  next
    case False
    have "filter (\<lambda>y. y \<notin> set (acc @ [x])) xs =
          filter (\<lambda>y. y \<noteq> x) (filter (\<lambda>y. y \<notin> set acc) xs)"
      by (induction xs) auto
    then show ?thesis using False Cons.IH [of "acc @ [x]"] by (simp add: Set_add_def)
  qed
qed

lemma new_Set_dedup: "new_Set xs = dedup_first_seen xs"
  by (simp add: new_Set_def foldl_Set_add)

lemma filter_eq_distinct:
  "distinct ys \<Longrightarrow> x \<in> set ys \<Longrightarrow> filter (\<lambda>e. e = x) ys = [x]"
proof (induction ys)
  case Nil
  then show ?case by simp
next
  case (Cons y ys)
  then show ?case by (cases "y = x") (auto simp: filter_empty_conv)
qed

section \<open>The loading page\<close>

text \<open>
  Claim C1, as amended. For every report with zero enumerable top-level keys, the content
  of the page is the loading indicator alone: none of the Overview, Segmentation,
  Recommendations, Glance and Footer sections is rendered. The page frame is rendered
  around it as for any report: a print button, the report header, a rule, and a second
  print button.
\<close>

theorem loading_page_shows_loader_in_frame:
  assumes "length (Object_keys (report s)) = 0"
  shows "render env s =
     Inr (Fragment
       [Element ''div'' [(''style'', PStyle [(''marginBottom'', ''20px'')])]
          [Component ''PrintReportButton'' [(''onClick'', PRef ''print'')] []],
        Element ''div'' [(''className'', PStr ''report-page'')]
          [Component ''ReportHeader'' [(''report_type'', PRef ''ReportTypes.security'')] [],
           Element ''hr'' [] [],
           Component ''ReportLoader'' [(''loading'', PBool True)] []],
        Element ''div'' [(''style'', PStyle [(''marginTop'', ''20px'')])]
          [Component ''PrintReportButton'' [(''onClick'', PRef ''print'')] []]])"
  using assms
  by (simp add: render_def render_content_def stillLoadingDataFromServer_def report_loader_def
      print_report_button_def)

theorem loading_page_shows_loader_in_frame_witness:
  "length (Object_keys (report (constructor empty_report))) = 0 \<and>
   page_content (projr (render example_externals (constructor empty_report))) =
     Component ''ReportLoader'' [(''loading'', PBool True)] []"
  using loading_page_shows_loader_in_frame [of "constructor empty_report" example_externals]
  by (simp add: constructor_def empty_report_def Object_keys_def page_content_def)

text \<open>
  Claim C1 as it is stated fails: the render output for the empty report is not the
  loading indicator alone, it also holds the report header and two print buttons.
\<close>

theorem loading_page_counterexample:
  "length (Object_keys empty_report) = 0 \<and>
   render example_externals (constructor empty_report) \<noteq>
     Inr (Component ''ReportLoader'' [(''loading'', PBool True)] []) \<and>
   components ''ReportHeader'' (projr (render example_externals (constructor empty_report))) =
     [[(''report_type'', PRef ''ReportTypes.security'')]] \<and>
   length (components ''PrintReportButton''
     (projr (render example_externals (constructor empty_report)))) = 2"
  by (simp add: render_def render_content_def stillLoadingDataFromServer_def report_loader_def
      print_report_button_def empty_report_def constructor_def Object_keys_def)

section \<open>Properties of a rendered issue\<close>

text \<open>
  Claim C3. For an issue of type \<^verbatim>\<open>ZerologonExploiter\<close> whose \<^verbatim>\<open>password_restored\<close>
  is \<^verbatim>\<open>false\<close>, the rendered remediation is the warning passage, a line break and
  then, in a list item, the normal remediation block: the \<^verbatim>\<open>ReactMarkdown\<close> element of
  the suggestion when the issue has one, the placeholder element otherwise. The warning
  comes first and both are present. For every other combination of type and
  \<^verbatim>\<open>password_restored\<close> the rendered remediation is the normal block alone, and the
  rendered issue does not depend on the warning passage at all.
\<close>

theorem zerologon_warning_precedes_remediation:
  "(issue_type i = ''ZerologonExploiter'' \<and> password_restored i = Defined False \<longrightarrow>
      rendered_remediation (generateIssue env i) =
        Fragment
          [zerologonOverviewWithFailedPassResetWarning env,
           Element ''br'' [] [],
           Element ''li'' []
             [case remediation_suggestion i of
                Absent \<Rightarrow> Component ''ReactMarkdown'' []
                            [Text ('' 'No remediation available'' @ [CHR 0x27])]
              | Undefined \<Rightarrow> Component ''ReactMarkdown'' []
                            [Text ('' 'No remediation available'' @ [CHR 0x27])]
              | Defined txt \<Rightarrow>
                  Component ''ReactMarkdown''
                    [(''plugins'', PRef ''[remarkBreaks]''), (''linkTarget'', PStr ''_blank''),
                     (''className'', PStr ''markdown'')]
                    [Text txt]]]) \<and>
   (\<not> (issue_type i = ''ZerologonExploiter'' \<and> password_restored i = Defined False) \<longrightarrow>
      rendered_remediation (generateIssue env i) =
        (case remediation_suggestion i of
           Absent \<Rightarrow> Component ''ReactMarkdown'' []
                       [Text ('' 'No remediation available'' @ [CHR 0x27])]
         | Undefined \<Rightarrow> Component ''ReactMarkdown'' []
                       [Text ('' 'No remediation available'' @ [CHR 0x27])]
         | Defined txt \<Rightarrow>
             Component ''ReactMarkdown''
               [(''plugins'', PRef ''[remarkBreaks]''), (''linkTarget'', PStr ''_blank''),
                (''className'', PStr ''markdown'')]
               [Text txt]) \<and>
      (\<forall>w. generateIssue (env\<lparr>zerologonOverviewWithFailedPassResetWarning := w\<rparr>) i =
           generateIssue env i))"
proof (cases "issue_type i = ''ZerologonExploiter'' \<and> password_restored i = Defined False")
  case True
  then show ?thesis
    by (simp add: generateIssue_def rendered_remediation_def markdown_def
        no_remediation_available_def Let_def split: field.splits)
next
  case False
  then have "rendered_remediation (generateIssue env i) =
        (case remediation_suggestion i of
           Absent \<Rightarrow> Component ''ReactMarkdown'' []
                       [Text ('' 'No remediation available'' @ [CHR 0x27])]
         | Undefined \<Rightarrow> Component ''ReactMarkdown'' []
                       [Text ('' 'No remediation available'' @ [CHR 0x27])]
         | Defined txt \<Rightarrow>
             Component ''ReactMarkdown''
               [(''plugins'', PRef ''[remarkBreaks]''), (''linkTarget'', PStr ''_blank''),
                (''className'', PStr ''markdown'')]
               [Text txt])"
    by (auto simp: generateIssue_def rendered_remediation_def markdown_def
        no_remediation_available_def Let_def split: field.splits)
  moreover have "generateIssue (env\<lparr>zerologonOverviewWithFailedPassResetWarning := w\<rparr>) i =
      generateIssue env i" for w
    using False by (auto simp: generateIssue_def Let_def)
  ultimately show ?thesis using False by blast
qed

theorem zerologon_warning_precedes_remediation_witness:
  "rendered_remediation (generateIssue example_externals zerologon_issue) =
     Fragment
       [Element ''span'' [(''className'', PStr ''badge badge-danger'')]
          [Text ''Automatic password restoration failed''],
        Element ''br'' [] [],
        Element ''li'' []
          [Component ''ReactMarkdown''
             [(''plugins'', PRef ''[remarkBreaks]''), (''linkTarget'', PStr ''_blank''),
              (''className'', PStr ''markdown'')]
             [Text ''Reset the password.'']]] \<and>
   rendered_remediation (generateIssue example_externals plain_issue) =
     Component ''ReactMarkdown'' [] [Text ('' 'No remediation available'' @ [CHR 0x27])]"
  using zerologon_warning_precedes_remediation [of zerologon_issue example_externals]
    zerologon_warning_precedes_remediation [of plain_issue example_externals]
  by (simp add: zerologon_issue_def plain_issue_def example_externals_def)

text \<open>
  Claim C7. Outside the Zerologon case, the rendered remediation is the fixed placeholder
  when \<^verbatim>\<open>remediation_suggestion\<close> is absent or undefined, and the \<^verbatim>\<open>ReactMarkdown\<close>
  element that holds the suggestion when it is defined. The description is handled on its
  own, for every issue: it is the empty string when absent or undefined and the
  \<^verbatim>\<open>ReactMarkdown\<close> element that holds the description otherwise.
\<close>

theorem remediation_and_description_defaults:
  "(\<not> (issue_type i = ''ZerologonExploiter'' \<and> password_restored i = Defined False) \<longrightarrow>
      rendered_remediation (generateIssue env i) =
        (case remediation_suggestion i of
           Absent \<Rightarrow> Component ''ReactMarkdown'' []
                       [Text ('' 'No remediation available'' @ [CHR 0x27])]
         | Undefined \<Rightarrow> Component ''ReactMarkdown'' []
                       [Text ('' 'No remediation available'' @ [CHR 0x27])]
         | Defined txt \<Rightarrow>
             Component ''ReactMarkdown''
               [(''plugins'', PRef ''[remarkBreaks]''), (''linkTarget'', PStr ''_blank''),
                (''className'', PStr ''markdown'')]
               [Text txt])) \<and>
   rendered_description (generateIssue env i) =
     (case issue.description i of
        Absent \<Rightarrow> Text ''''
      | Undefined \<Rightarrow> Text ''''
      | Defined txt \<Rightarrow>
          Component ''ReactMarkdown''
            [(''plugins'', PRef ''[remarkBreaks]''), (''linkTarget'', PStr ''_blank''),
             (''className'', PStr ''markdown'')]
            [Text txt])"
  by (auto simp: generateIssue_def rendered_remediation_def rendered_description_def Let_def
      no_remediation_available_def markdown_def split: field.splits)

theorem remediation_and_description_defaults_witness:
  "rendered_remediation (generateIssue example_externals plain_issue) =
     Component ''ReactMarkdown'' [] [Text ('' 'No remediation available'' @ [CHR 0x27])] \<and>
   rendered_description (generateIssue example_externals plain_issue) = Text '''' \<and>
   rendered_remediation
     (generateIssue example_externals
        (plain_issue\<lparr>remediation_suggestion := Defined ''Patch.'',
                      description := Defined ''Old kernel.''\<rparr>)) =
     Component ''ReactMarkdown''
       [(''plugins'', PRef ''[remarkBreaks]''), (''linkTarget'', PStr ''_blank''),
        (''className'', PStr ''markdown'')]
       [Text ''Patch.''] \<and>
   rendered_description
     (generateIssue example_externals
        (plain_issue\<lparr>remediation_suggestion := Defined ''Patch.'',
                      description := Defined ''Old kernel.''\<rparr>)) =
     Component ''ReactMarkdown''
       [(''plugins'', PRef ''[remarkBreaks]''), (''linkTarget'', PStr ''_blank''),
        (''className'', PStr ''markdown'')]
       [Text ''Old kernel.'']"
  using remediation_and_description_defaults [of plain_issue example_externals]
    remediation_and_description_defaults
      [of "plain_issue\<lparr>remediation_suggestion := Defined ''Patch.'',
                        description := Defined ''Old kernel.''\<rparr>" example_externals]
  by (simp add: plain_issue_def)

section \<open>Properties of the overview section\<close>

lemma overview_returns:
  assumes "r_overview (report s) = Some ov" and "r_glance (report s) = Some gl"
  shows "\<exists>sec. generateReportOverviewSection env s = Inr sec"
  using assms
  by (auto simp: generateReportOverviewSection_def getMonkeyDuration_def
      split: option.splits sum.splits)

lemma overview_children:
  assumes "generateReportOverviewSection env s = Inr sec"
  shows "node_children sec ! 5 =
    Element ''ul'' [] [Array (map li_item (new_Set (manual_hostnames env s)))]"
  using assms
  by (auto simp: generateReportOverviewSection_def manual_hostnames_def
      split: option.splits sum.splits)

lemma li_item_eq: "li_item x = li_item y \<longleftrightarrow> x = y"
  by (simp add: li_item_def)

text \<open>
  Claim C5. When the overview section is rendered (the report has its \<^verbatim>\<open>overview\<close> and
  \<^verbatim>\<open>glance\<close>), the list under the manual-start sentence has one item
  \<^verbatim>\<open><li key={x}>{x}</li>\<close> for each hostname \<open>x\<close> of a manually started agent, duplicates
  removed and the order of first occurrence kept, whatever the lists of agents and
  machines are. In particular two manually started agents on the same machine give
  exactly one item, which shows the hostname of that machine.
\<close>

theorem manual_hostnames_deduplicated:
  assumes "r_overview (report s) = Some ov" and "r_glance (report s) = Some gl"
  shows "\<exists>sec. generateReportOverviewSection env s = Inr sec \<and>
     node_children sec ! 5 =
       Element ''ul'' []
         [Array (map (\<lambda>x. Element ''li'' [(''key'', PStr x)] [Text x])
                   (dedup_first_seen (manual_hostnames env s)))] \<and>
     (\<forall>a b. getManuallyStartedAgents env (agents s) = [a, b] \<and>
        getMachineByAgent env a (machines s) = getMachineByAgent env b (machines s) \<longrightarrow>
        node_children sec ! 5 =
          Element ''ul'' []
            [Array [Element ''li''
                      [(''key'', PStr (getMachineHostname env (getMachineByAgent env a (machines s))))]
                      [Text (getMachineHostname env (getMachineByAgent env a (machines s)))]]])"
proof -
  obtain sec where sec: "generateReportOverviewSection env s = Inr sec"
    using overview_returns [OF assms, of env] by (elim exE)
  have ul: "node_children sec ! 5 =
       Element ''ul'' []
         [Array (map (\<lambda>x. Element ''li'' [(''key'', PStr x)] [Text x])
                   (dedup_first_seen (manual_hostnames env s)))]"
    using overview_children [OF sec] by (simp add: new_Set_dedup li_item_def)
  have two: "node_children sec ! 5 =
      Element ''ul'' []
        [Array [Element ''li''
                  [(''key'', PStr (getMachineHostname env (getMachineByAgent env a (machines s))))]
                  [Text (getMachineHostname env (getMachineByAgent env a (machines s)))]]]"
    if "getManuallyStartedAgents env (agents s) = [a, b]"
      and "getMachineByAgent env a (machines s) = getMachineByAgent env b (machines s)" for a b
    using that ul by (simp add: manual_hostnames_def)
  show ?thesis
    apply (rule exI [of _ sec])
    apply (intro conjI sec ul allI impI)
    apply (erule conjE)
    apply (erule (1) two)
    done
qed

theorem manual_hostnames_deduplicated_witness:
  "node_children (projr (generateReportOverviewSection example_externals example_state)) ! 5 =
     Element ''ul'' []
       [Array [Element ''li'' [(''key'', PStr ''web'')] [Text ''web''],
               Element ''li'' [(''key'', PStr ''db'')] [Text ''db'']]] \<and>
   node_children (projr (generateReportOverviewSection example_externals
       (example_state\<lparr>agents := [agent 1 True, agent 1 True]\<rparr>))) ! 5 =
     Element ''ul'' [] [Array [Element ''li'' [(''key'', PStr ''web'')] [Text ''web'']]]"
  using manual_hostnames_deduplicated [of example_state example_overview _ example_externals]
    manual_hostnames_deduplicated
      [of "example_state\<lparr>agents := [agent 1 True, agent 1 True]\<rparr>" example_overview _
        example_externals]
  apply (simp add: example_state_def constructor_def example_report_def)
  apply (simp add: manual_hostnames_def example_externals_def
      example_agents_def example_machines_def agent_def machine_def machine_by_id_def)
  apply auto
  done

text \<open>
  Claim C10. The manual-start list is deduplicated by hostname alone. The list has as
  many items as there are different hostnames among the manually started agents, and
  for any two manually started agents whose machines have equal hostnames, be they the
  same machine or not, the items that stand for either of them are one single item.
\<close>

theorem manual_hostnames_deduplicated_by_hostname:
  assumes "r_overview (report s) = Some ov" and "r_glance (report s) = Some gl"
  shows "\<exists>sec entries. generateReportOverviewSection env s = Inr sec \<and>
     node_children sec ! 5 = Element ''ul'' [] [Array entries] \<and>
     length entries = card (set (manual_hostnames env s)) \<and>
     (\<forall>a \<in> set (getManuallyStartedAgents env (agents s)).
      \<forall>b \<in> set (getManuallyStartedAgents env (agents s)).
        agent_hostname env s a = agent_hostname env s b \<longrightarrow>
        filter (\<lambda>e. e = li_item (agent_hostname env s a) \<or> e = li_item (agent_hostname env s b))
          entries = [li_item (agent_hostname env s a)])"
proof -
  let ?hs = "manual_hostnames env s"
  let ?entries = "map li_item (dedup_first_seen ?hs)"
  obtain sec where sec: "generateReportOverviewSection env s = Inr sec"
    using overview_returns [OF assms, of env] by (elim exE)
  have ul: "node_children sec ! 5 = Element ''ul'' [] [Array ?entries]"
    using overview_children [OF sec] by (simp add: new_Set_dedup)
  have len: "length ?entries = card (set ?hs)"
    using distinct_card [OF distinct_dedup_first_seen, of ?hs]
    by (simp add: set_dedup_first_seen)
  have dist: "distinct ?entries"
    by (simp add: distinct_map distinct_dedup_first_seen inj_on_def li_item_eq)
  have one: "filter (\<lambda>e. e = li_item (agent_hostname env s a) \<or> e = li_item (agent_hostname env s b))
          ?entries = [li_item (agent_hostname env s a)]"
    if a: "a \<in> set (getManuallyStartedAgents env (agents s))"
      and eq: "agent_hostname env s a = agent_hostname env s b" for a b
  proof -
    have "agent_hostname env s a \<in> set ?hs"
      using a by (auto simp: manual_hostnames_def agent_hostname_def)
    then have "li_item (agent_hostname env s a) \<in> set ?entries"
      by (simp add: set_dedup_first_seen)
    then show ?thesis
      using filter_eq_distinct [OF dist] eq by simp
  qed
  show ?thesis
    using sec ul len one by blast
qed

theorem manual_hostnames_deduplicated_by_hostname_witness:
  "machine 1 ''web'' \<noteq> machine 2 ''web'' \<and>
   getManuallyStartedAgents example_externals [agent 1 True, agent 2 True] =
     [agent 1 True, agent 2 True] \<and>
   getMachineByAgent example_externals (agent 1 True) example_machines = machine 1 ''web'' \<and>
   getMachineByAgent example_externals (agent 2 True) example_machines = machine 2 ''web'' \<and>
   node_children (projr (generateReportOverviewSection example_externals
       (example_state\<lparr>agents := [agent 1 True, agent 2 True]\<rparr>))) ! 5 =
     Element ''ul'' [] [Array [li_item ''web'']]"
  using manual_hostnames_deduplicated_by_hostname
      [of "example_state\<lparr>agents := [agent 1 True, agent 2 True]\<rparr>" example_overview
        "\<lparr>exploited_cnt = 1, scanned = [JStr ''web'', JStr ''db'', JStr ''mail'']\<rparr>"
        example_externals]
  apply (simp add: example_state_def constructor_def example_report_def)
  apply (simp add: manual_hostnames_def agent_hostname_def example_externals_def
      example_agents_def example_machines_def agent_def machine_def machine_by_id_def)
  apply (auto simp: length_Suc_conv split: if_splits)
  done

text \<open>
  Claim C6. When the overview section is rendered and \<^verbatim>\<open>overview.config_exploits\<close> is
  empty, the place of the exploitation methods holds the paragraph
  \<^verbatim>\<open>No exploiters were enabled.\<close> and no list; when the list is not empty, that place
  holds the paragraph with one list item for each configured exploit, and not that text.
\<close>

theorem no_exploiters_text_or_list:
  assumes "r_overview (report s) = Some ov" and "r_glance (report s) = Some gl"
  shows "\<exists>sec. generateReportOverviewSection env s = Inr sec \<and>
     (config_exploits ov = [] \<longrightarrow>
        node_children sec ! 7 = Element ''p'' [] [Text ''No exploiters were enabled.'']) \<and>
     (config_exploits ov \<noteq> [] \<longrightarrow>
        node_children sec ! 7 =
          Element ''p'' []
            [Text ''The Monkey attempted the following exploitation methods:'',
             Element ''ul'' [] [Array (map li_item (config_exploits ov))]])"
  using assms
  by (auto simp: generateReportOverviewSection_def getMonkeyDuration_def
      split: option.splits sum.splits)

theorem no_exploiters_text_or_list_witness:
  "node_children
     (projr (generateReportOverviewSection example_externals (constructor quiet_report))) ! 7 =
     Element ''p'' [] [Text ''No exploiters were enabled.''] \<and>
   node_children (projr (generateReportOverviewSection example_externals example_state)) ! 7 =
     Element ''p'' []
       [Text ''The Monkey attempted the following exploitation methods:'',
        Element ''ul'' [] [Array [li_item ''SSHExploiter'', li_item ''ZerologonExploiter'']]]"
  using no_exploiters_text_or_list
      [of "constructor quiet_report" "example_overview\<lparr>config_exploits := []\<rparr>"
        "\<lparr>exploited_cnt = 0, scanned = []\<rparr>" example_externals]
    no_exploiters_text_or_list
      [of example_state example_overview
        "\<lparr>exploited_cnt = 1, scanned = [JStr ''web'', JStr ''db'', JStr ''mail'']\<rparr>"
        example_externals]
  by (auto simp: constructor_def quiet_report_def example_state_def example_report_def
      example_overview_def)

section \<open>Properties of the glance section\<close>

lemma glance_section_shape:
  assumes "r_glance (report s) = Some gl"
  shows "\<exists>sec. generateReportGlanceSection env s = Inr sec \<and>
     map (\<lambda>ps. map_of ps ''percent'') (components ''Line'' sec) =
       [Some (PNum (js_div (js_mul (js_number 100) (js_number (exploited_cnt gl)))
                      (js_number (int (length (scanned gl))))))] \<and>
     node_children (node_children (node_children sec ! 1) ! 1) ! 1 =
       Element ''b'' []
         [Number (Math_round (js_div (js_mul (js_number 100) (js_number (exploited_cnt gl)))
                    (js_number (int (length (scanned gl)))))),
          Text ''% of scanned machines exploited''] \<and>
     components ''StolenCredentialsTable'' sec =
       [[(''stolenCredentials'', PData (stolenCredentials s))]]"
  using assms by (simp add: generateReportGlanceSection_def Let_def)

lemma js_div_by_zero: "\<not> isFinite (js_div x (Finite 0))"
  by (cases x) (simp_all add: isFinite_def js_infinity_def)

lemma Math_round_not_finite: "\<not> isFinite x \<Longrightarrow> \<not> isFinite (Math_round x)"
  by (cases x) (simp_all add: isFinite_def Math_round_def)

lemma percentage_of_safe_counts:
  assumes "\<bar>100 * c\<bar> \<le> 2 ^ 53" and "0 < n" and "n \<le> 2 ^ 53"
  shows "js_div (js_mul (js_number 100) (js_number c)) (js_number n) =
    to_double (of_int (100 * c) / of_int n)"
proof -
  have c: "\<bar>c\<bar> \<le> 2 ^ 53" using assms(1) by simp
  have n: "\<bar>n\<bar> \<le> 2 ^ 53" using assms(2,3) by simp
  have "js_mul (js_number 100) (js_number c) = to_double (of_int (100 * c))"
    using c by (simp add: js_number_exact)
  also have "\<dots> = Finite (of_int (100 * c))"
    using assms(1) by (rule to_double_exact)
  finally show ?thesis
    using n assms(2) by (simp add: js_number_exact)
qed

text \<open>
  Claim C2. When the report has its \<^verbatim>\<open>glance\<close>, the glance section is rendered, and the
  percentage it hands to the progress line and shows rounded in the bold text is the
  value of \<^verbatim>\<open>(100 * exploited_cnt) / scanned.length\<close> in the arithmetic of doubles. For
  the empty list the division is carried out all the same and the value is not finite
  (\<^verbatim>\<open>NaN\<close> or an infinity), also after rounding. For a non-empty list, as long as
  \<open>100 * exploited_cnt\<close> and the length are at most \<open>2\<^sup>5\<^sup>3\<close> in absolute value, the
  percentage is the double nearest to the exact quotient.
\<close>

theorem exploit_percentage_unguarded:
  assumes "r_glance (report s) = Some gl"
  shows "\<exists>sec. generateReportGlanceSection env s = Inr sec \<and>
     map (\<lambda>ps. map_of ps ''percent'') (components ''Line'' sec) =
       [Some (PNum (js_div (js_mul (js_number 100) (js_number (exploited_cnt gl)))
                      (js_number (int (length (scanned gl))))))] \<and>
     node_children (node_children (node_children sec ! 1) ! 1) ! 1 =
       Element ''b'' []
         [Number (Math_round (js_div (js_mul (js_number 100) (js_number (exploited_cnt gl)))
                    (js_number (int (length (scanned gl)))))),
          Text ''% of scanned machines exploited''] \<and>
     (scanned gl = [] \<longrightarrow>
        \<not> isFinite (js_div (js_mul (js_number 100) (js_number (exploited_cnt gl)))
                      (js_number (int (length (scanned gl))))) \<and>
        \<not> isFinite (Math_round (js_div (js_mul (js_number 100) (js_number (exploited_cnt gl)))
                      (js_number (int (length (scanned gl))))))) \<and>
     (scanned gl \<noteq> [] \<and> \<bar>100 * exploited_cnt gl\<bar> \<le> 2 ^ 53 \<and>
      int (length (scanned gl)) \<le> 2 ^ 53 \<longrightarrow>
        js_div (js_mul (js_number 100) (js_number (exploited_cnt gl)))
          (js_number (int (length (scanned gl)))) =
        to_double (of_int (100 * exploited_cnt gl) / of_int (int (length (scanned gl)))))"
proof -
  let ?pct = "js_div (js_mul (js_number 100) (js_number (exploited_cnt gl)))
                (js_number (int (length (scanned gl))))"
  obtain sec where sec: "generateReportGlanceSection env s = Inr sec"
    and line: "map (\<lambda>ps. map_of ps ''percent'') (components ''Line'' sec) = [Some (PNum ?pct)]"
    and bold: "node_children (node_children (node_children sec ! 1) ! 1) ! 1 =
       Element ''b'' [] [Number (Math_round ?pct), Text ''% of scanned machines exploited'']"
    using glance_section_shape [OF assms, of env] by (elim exE conjE)
  have nonfin: "scanned gl = [] \<longrightarrow> \<not> isFinite ?pct \<and> \<not> isFinite (Math_round ?pct)"
  proof
    assume "scanned gl = []"
    then have "js_number (int (length (scanned gl))) = Finite 0"
      by (simp add: js_number_exact)
    then have "\<not> isFinite ?pct" by (simp add: js_div_by_zero)
    then show "\<not> isFinite ?pct \<and> \<not> isFinite (Math_round ?pct)"
      by (simp add: Math_round_not_finite)
  qed
  have fin: "scanned gl \<noteq> [] \<and> \<bar>100 * exploited_cnt gl\<bar> \<le> 2 ^ 53 \<and>
      int (length (scanned gl)) \<le> 2 ^ 53 \<longrightarrow>
      ?pct = to_double (of_int (100 * exploited_cnt gl) / of_int (int (length (scanned gl))))"
  proof
    assume a: "scanned gl \<noteq> [] \<and> \<bar>100 * exploited_cnt gl\<bar> \<le> 2 ^ 53 \<and>
      int (length (scanned gl)) \<le> 2 ^ 53"
    then have "0 < int (length (scanned gl))" by simp
    with a show "?pct =
        to_double (of_int (100 * exploited_cnt gl) / of_int (int (length (scanned gl))))"
      by (intro percentage_of_safe_counts) simp_all
  qed
  show ?thesis
    by (rule exI [of _ sec]) (intro conjI sec line bold nonfin fin)
qed

theorem exploit_percentage_unguarded_witness:
  "r_glance (report (constructor quiet_report)) = Some \<lparr>exploited_cnt = 0, scanned = []\<rparr> \<and>
   \<not> isFinite (js_div (js_mul (js_number 100) (js_number 0)) (js_number (int (length [])))) \<and>
   r_glance (report example_state) =
     Some \<lparr>exploited_cnt = 1, scanned = [JStr ''web'', JStr ''db'', JStr ''mail'']\<rparr> \<and>
   map (\<lambda>ps. map_of ps ''percent'')
     (components ''Line'' (projr (generateReportGlanceSection example_externals example_state))) =
     [Some (PNum (Finite (4691249611844267 / 140737488355328)))]"
proof -
  let ?quiet = "\<lparr>exploited_cnt = 0, scanned = []\<rparr>"
  let ?gl = "\<lparr>exploited_cnt = 1, scanned = [JStr ''web'', JStr ''db'', JStr ''mail'']\<rparr>"
  have q: "r_glance (report (constructor quiet_report)) = Some ?quiet"
    by (simp add: constructor_def quiet_report_def)
  have g: "r_glance (report example_state) = Some ?gl"
    by (simp add: example_state_def constructor_def example_report_def)
  from exploit_percentage_unguarded [OF q, of example_externals]
  have nonfin: "\<not> isFinite (js_div (js_mul (js_number 100) (js_number 0))
      (js_number (int (length []))))"
    by (elim exE conjE) simp
  from exploit_percentage_unguarded [OF g, of example_externals]
  obtain sec where sec: "generateReportGlanceSection example_externals example_state = Inr sec"
    and line: "map (\<lambda>ps. map_of ps ''percent'') (components ''Line'' sec) =
       [Some (PNum (js_div (js_mul (js_number 100) (js_number (exploited_cnt ?gl)))
                      (js_number (int (length (scanned ?gl))))))]"
    and fin: "scanned ?gl \<noteq> [] \<and> \<bar>100 * exploited_cnt ?gl\<bar> \<le> 2 ^ 53 \<and>
      int (length (scanned ?gl)) \<le> 2 ^ 53 \<longrightarrow>
        js_div (js_mul (js_number 100) (js_number (exploited_cnt ?gl)))
          (js_number (int (length (scanned ?gl)))) =
        to_double (of_int (100 * exploited_cnt ?gl) / of_int (int (length (scanned ?gl))))"
    by (elim exE conjE)
  have "js_div (js_mul (js_number 100) (js_number (exploited_cnt ?gl)))
          (js_number (int (length (scanned ?gl)))) =
        Finite (4691249611844267 / 140737488355328)"
    using fin by (simp add: to_double_third_of_hundred)
  with line have "map (\<lambda>ps. map_of ps ''percent'') (components ''Line'' sec) =
     [Some (PNum (Finite (4691249611844267 / 140737488355328)))]"
    by simp
  with q g nonfin sec show ?thesis by simp
qed

section \<open>The page of a loaded report\<close>

lemma recommendations_returns:
  assumes "r_recommendations (report s) = Some rc"
  shows "\<exists>sec. generateReportRecommendationsSection env s t = Inr sec"
  using assms by (simp add: generateReportRecommendationsSection_def)

lemma not_loading:
  assumes "r_overview (report s) = Some ov"
  shows "\<not> stillLoadingDataFromServer s"
  using assms by (simp add: stillLoadingDataFromServer_def Object_keys_def)

lemma render_loaded:
  assumes "\<not> stillLoadingDataFromServer s"
    and "generateReportOverviewSection env s = Inr ovs"
    and "generateSegmentationSection env s = Inr sgs"
    and "generateReportRecommendationsSection env s
           (getAllTunnels env (agents s) (machines s)) = Inr rcs"
    and "generateReportGlanceSection env s = Inr gls"
  shows "\<exists>out. render env s = Inr out \<and>
    node_children (page_content out) = [ovs, sgs, rcs, gls, generateReportFooter]"
  using assms by (simp add: render_def render_content_def page_content_def)

lemma segmentation_result:
  assumes "cross_segment_issues (report s) = Some xs"
  shows "generateSegmentationSection env s =
     Inr (if xs = [] then Text ''''
          else Element ''div'' []
             [Element ''h2'' [] [Text ''Segmentation Issues''],
              Element ''div'' []
                [Text ''The Monkey uncovered the following set of segmentation issues:'',
                 Element ''ul'' [] [Array (map (crossSegmentIssueReport env) xs)]]])"
  using assms by (simp add: generateSegmentationSection_def)

text \<open>
  Claim C4. For a report that has its four parts, the page is rendered and its content
  holds, in this order, the overview, the place of the segmentation section, the
  recommendations, the glance section and the footer. With no cross-segment issue the
  place of the segmentation section holds the empty string, so no such section is in the
  output; otherwise it holds the section headed \<^verbatim>\<open>Segmentation Issues\<close> whose list has
  one entry for each cross-segment issue, in order.
\<close>

theorem segmentation_section_only_with_issues:
  assumes "r_overview (report s) = Some ov" and "r_glance (report s) = Some gl"
    and "r_recommendations (report s) = Some rc" and "cross_segment_issues (report s) = Some xs"
  shows "\<exists>out ovs rcs gls.
     render env s = Inr out \<and>
     generateReportOverviewSection env s = Inr ovs \<and>
     generateReportRecommendationsSection env s (getAllTunnels env (agents s) (machines s)) =
       Inr rcs \<and>
     generateReportGlanceSection env s = Inr gls \<and>
     (xs = [] \<longrightarrow>
        node_children (page_content out) = [ovs, Text '''', rcs, gls, generateReportFooter]) \<and>
     (xs \<noteq> [] \<longrightarrow>
        node_children (page_content out) =
          [ovs,
           Element ''div'' []
             [Element ''h2'' [] [Text ''Segmentation Issues''],
              Element ''div'' []
                [Text ''The Monkey uncovered the following set of segmentation issues:'',
                 Element ''ul'' [] [Array (map (crossSegmentIssueReport env) xs)]]],
           rcs, gls, generateReportFooter])"
proof -
  obtain ovs where ovs: "generateReportOverviewSection env s = Inr ovs"
    using overview_returns [OF assms(1,2), of env] by (elim exE)
  obtain rcs where rcs: "generateReportRecommendationsSection env s
      (getAllTunnels env (agents s) (machines s)) = Inr rcs"
    using recommendations_returns [OF assms(3), of env "getAllTunnels env (agents s) (machines s)"]
    by (elim exE)
  obtain gls where gls: "generateReportGlanceSection env s = Inr gls"
    using glance_section_shape [OF assms(2), of env] by (elim exE conjE)
  obtain out where out: "render env s = Inr out"
    and kids: "node_children (page_content out) =
      [ovs,
       if xs = [] then Text ''''
       else Element ''div'' []
             [Element ''h2'' [] [Text ''Segmentation Issues''],
              Element ''div'' []
                [Text ''The Monkey uncovered the following set of segmentation issues:'',
                 Element ''ul'' [] [Array (map (crossSegmentIssueReport env) xs)]]],
       rcs, gls, generateReportFooter]"
    using render_loaded [OF not_loading [OF assms(1)] ovs segmentation_result [OF assms(4)] rcs gls]
    by (elim exE conjE)
  show ?thesis
    apply (rule exI [of _ out], rule exI [of _ ovs], rule exI [of _ rcs], rule exI [of _ gls])
    apply (simp only: out ovs rcs gls kids)
    apply simp
    done
qed

theorem segmentation_section_only_with_issues_witness:
  "node_children (page_content (projr (render example_externals (constructor quiet_report)))) ! 1 =
     Text '''' \<and>
   node_children (page_content (projr (render example_externals example_state))) ! 1 =
     Element ''div'' []
       [Element ''h2'' [] [Text ''Segmentation Issues''],
        Element ''div'' []
          [Text ''The Monkey uncovered the following set of segmentation issues:'',
           Element ''ul'' [] [Array [Element ''li'' [] [Text ''Cross-segment issue'']]]]]"
  using segmentation_section_only_with_issues
      [of "constructor quiet_report" "example_overview\<lparr>config_exploits := []\<rparr>"
        "\<lparr>exploited_cnt = 0, scanned = []\<rparr>" "\<lparr>issues = []\<rparr>" "[]" example_externals]
    segmentation_section_only_with_issues
      [of example_state example_overview
        "\<lparr>exploited_cnt = 1, scanned = [JStr ''web'', JStr ''db'', JStr ''mail'']\<rparr>"
        "\<lparr>issues = [(''1'', [zerologon_issue, plain_issue])]\<rparr>"
        "[JStr ''10.0.0.0/24 -> 10.0.1.0/24'']" example_externals]
  by (auto simp: constructor_def quiet_report_def example_state_def example_report_def
      example_externals_def)

section \<open>Properties of the four fetches\<close>

lemma then_promise_json: "then_promise p json = body p"
  by (cases p rule: body.cases) (simp_all add: then_promise_def)

lemma on_settled_frame:
  "f \<noteq> fetch_of e \<Longrightarrow> slot f (fst (on_settled e s)) = slot f s"
  by (cases e; cases f) (auto simp: then_setState_def split: promise.splits)

lemma on_settled_report: "report (fst (on_settled e s)) = report s"
  by (cases e) (auto simp: then_setState_def split: promise.splits)

lemma on_settled_own:
  "slot (fetch_of e) (fst (on_settled e s)) = written (outcome e) (slot (fetch_of e) s)"
  by (cases e) (auto simp: then_setState_def then_promise_json split: promise.splits)

lemma on_settled_commute:
  assumes "fetch_of x \<noteq> fetch_of y"
  shows "fst (on_settled x (fst (on_settled y s))) = fst (on_settled y (fst (on_settled x s)))"
  using assms
  by (cases x; cases y) (auto simp: then_setState_def split: promise.splits)

lemma settle_all_permuted:
  assumes "mset es =
    mset [StolenCredentialsFetch p1, ConfiguredCredentialsFetch p2, AllAgents p3, AllMachines p4]"
  shows "settle_all es s =
     settle_all
       [StolenCredentialsFetch p1, ConfiguredCredentialsFetch p2, AllAgents p3, AllMachines p4] s"
proof -
  let ?step = "\<lambda>e s. fst (on_settled e s)"
  have set_es: "set es =
      {StolenCredentialsFetch p1, ConfiguredCredentialsFetch p2, AllAgents p3, AllMachines p4}"
    using mset_eq_setD [OF assms] by simp
  have "?step x \<circ> ?step y = ?step y \<circ> ?step x" if "x \<in> set es" "y \<in> set es" for x y
  proof (cases "x = y")
    case True
    then show ?thesis by simp
  next
    case False
    then have "fetch_of x \<noteq> fetch_of y"
      using that set_es by auto
    then show ?thesis
      by (auto simp: fun_eq_iff on_settled_commute)
  qed
  from fold_multiset_equiv [of es ?step, OF this assms]
  show ?thesis by (simp add: settle_all_def)
qed

lemma settle_all_canonical:
  "settle_all
     [StolenCredentialsFetch p1, ConfiguredCredentialsFetch p2, AllAgents p3, AllMachines p4] s =
     \<lparr>report = report s,
      stolenCredentials = written (body p1) (stolenCredentials s),
      configuredCredentials = written (body p2) (configuredCredentials s),
      agents = written p3 (agents s),
      machines = written p4 (machines s)\<rparr>"
  by (cases "body p1"; cases "body p2"; cases p3; cases p4)
     (simp_all add: settle_all_def then_setState_def then_promise_json)

text \<open>
  Claim C8. When one of the four fetches settles, the slots of the three other fetches
  and the report slot keep their values, and its own slot takes the delivered data (or
  keeps its value when the fetch failed). In whatever order the four fetches settle, the
  state at the end is the same: each slot holds what its own fetch delivered.
\<close>

theorem fetches_write_disjoint_slots:
  "(\<forall>f. f \<noteq> fetch_of e \<longrightarrow> slot f (fst (on_settled e s)) = slot f s) \<and>
   report (fst (on_settled e s)) = report s \<and>
   slot (fetch_of e) (fst (on_settled e s)) = written (outcome e) (slot (fetch_of e) s) \<and>
   (mset es =
      mset [StolenCredentialsFetch p1, ConfiguredCredentialsFetch p2, AllAgents p3,
            AllMachines p4] \<longrightarrow>
      settle_all es s =
        \<lparr>report = report s,
         stolenCredentials = written (body p1) (stolenCredentials s),
         configuredCredentials = written (body p2) (configuredCredentials s),
         agents = written p3 (agents s),
         machines = written p4 (machines s)\<rparr>)"
  using on_settled_frame [of _ e s] on_settled_report [of e s] on_settled_own [of e s]
    settle_all_permuted [of es p1 p2 p3 p4 s] settle_all_canonical [of p1 p2 p3 p4 s]
  by simp

theorem fetches_write_disjoint_slots_witness:
  "settle_all
     [AllMachines (Fulfilled example_machines),
      StolenCredentialsFetch (Fulfilled (Response (Fulfilled [JStr ''root:toor'']))),
      AllAgents (Fulfilled example_agents),
      ConfiguredCredentialsFetch (Rejected ''network error'')]
     (constructor example_report) =
   \<lparr>report = example_report, stolenCredentials = [JStr ''root:toor''],
    configuredCredentials = [], agents = example_agents, machines = example_machines\<rparr>"
  using fetches_write_disjoint_slots
      [of "AllAgents (Fulfilled example_agents)" "constructor example_report"
        "[AllMachines (Fulfilled example_machines),
          StolenCredentialsFetch (Fulfilled (Response (Fulfilled [JStr ''root:toor'']))),
          AllAgents (Fulfilled example_agents),
          ConfiguredCredentialsFetch (Rejected ''network error'')]"
        "Fulfilled (Response (Fulfilled [JStr ''root:toor'']))" "Rejected ''network error''"
        "Fulfilled example_agents" "Fulfilled example_machines"]
  by (simp add: constructor_def)










end
